theory Spec2Isabelle
  imports Complex_Main "HOL-Library.Multiset"
begin

section \<open>GoWeather: providers, aggregator and HTTP handler\<close>

text \<open>
  The program asks several weather providers for the temperature of a city, averages
  their answers and serves the average over HTTP. This theory embeds its functions
  and proves the properties its specification states about them.

  Conventions of the embedding.
  \<^item> A Go function returning \<open>(float64, error)\<close> returns a pair
    \<open>float64 \<times> error option\<close>; \<open>None\<close> is Go's \<open>nil\<close> error, so
    \<open>return 0, err\<close> is \<open>(Fin 0, Some err)\<close>.
  \<^item> \<open>float64\<close> is modelled with exact real arithmetic on finite values, together with
    the two infinities and NaN. Rounding, overflow and the sign of zero are outside the
    model: a finite result stands for the float64 nearest to it.
  \<^item> The outside world is a parameter: \<open>Get\<close> is \<open>http.Get\<close> (the body of the
    response, or the transport error), \<open>Decode\<close> is
    \<open>json.NewDecoder(resp.Body).Decode(&d)\<close> (it takes the struct \<open>d\<close> and gives the
    error and the struct as the decoder leaves it), and the package variables
    \<open>wuKey\<close> and \<open>mw\<close> are arguments.
  \<^item> A provider also returns the URLs it passed to \<open>http.Get\<close>, in order.
  \<^item> Calls to \<open>fmt.Printf\<close> and \<open>fmt.Println\<close> write to standard output and
    influence no returned value; they are left out.
\<close>

subsection \<open>float64\<close>

datatype float64 = Fin real | PInf | NInf | NaN

fun fneg :: "float64 \<Rightarrow> float64" where
  "fneg (Fin x) = Fin (- x)"
| "fneg PInf = NInf"
| "fneg NInf = PInf"
| "fneg NaN = NaN"

fun fadd :: "float64 \<Rightarrow> float64 \<Rightarrow> float64" where
  "fadd NaN b = NaN"
| "fadd a NaN = NaN"
| "fadd (Fin x) (Fin y) = Fin (x + y)"
| "fadd PInf NInf = NaN"
| "fadd NInf PInf = NaN"
| "fadd PInf b = PInf"
| "fadd NInf b = NInf"
| "fadd a PInf = PInf"
| "fadd a NInf = NInf"

definition fsub :: "float64 \<Rightarrow> float64 \<Rightarrow> float64" where
  "fsub a b = fadd a (fneg b)"

fun fmul :: "float64 \<Rightarrow> float64 \<Rightarrow> float64" where
  "fmul NaN b = NaN"
| "fmul a NaN = NaN"
| "fmul (Fin x) (Fin y) = Fin (x * y)"
| "fmul PInf (Fin y) = (if y = 0 then NaN else if 0 < y then PInf else NInf)"
| "fmul NInf (Fin y) = (if y = 0 then NaN else if 0 < y then NInf else PInf)"
| "fmul (Fin x) PInf = (if x = 0 then NaN else if 0 < x then PInf else NInf)"
| "fmul (Fin x) NInf = (if x = 0 then NaN else if 0 < x then NInf else PInf)"
| "fmul PInf PInf = PInf"
| "fmul PInf NInf = NInf"
| "fmul NInf PInf = NInf"
| "fmul NInf NInf = PInf"

text \<open>
  Division. A zero divisor is taken as \<open>+0\<close>, which is what \<open>float64(len(w))\<close> gives
  for an empty list: \<open>0/0\<close> is NaN and \<open>x/0\<close> is the infinity of the sign of \<open>x\<close>.
\<close>

fun fdiv :: "float64 \<Rightarrow> float64 \<Rightarrow> float64" where
  "fdiv NaN b = NaN"
| "fdiv a NaN = NaN"
| "fdiv (Fin x) (Fin y) =
     (if y \<noteq> 0 then Fin (x / y)
      else if x = 0 then NaN
      else if 0 < x then PInf else NInf)"
| "fdiv (Fin x) b = Fin 0"
| "fdiv PInf (Fin y) = (if 0 \<le> y then PInf else NInf)"
| "fdiv NInf (Fin y) = (if 0 \<le> y then NInf else PInf)"
| "fdiv a b = NaN"

subsection \<open>Errors and the provider interface\<close>

text \<open>A Go \<open>error\<close> is known by the text its \<open>Error()\<close> method returns.\<close>

datatype error = Error (message: string)

text \<open>
  \<open>type weatherProvider interface { temperature(city string) (float64, error) }\<close>
  and \<open>type multiWeatherProvider []weatherProvider\<close>.
\<close>

type_synonym weatherProvider = "string \<Rightarrow> float64 \<times> error option"

type_synonym multiWeatherProvider = "weatherProvider list"

subsection \<open>The concrete providers\<close>

text \<open>
  The structs filled by the JSON decoder. \<open>weatherData\<close> is the declared type;
  \<open>openWeatherMap_d\<close> and \<open>weatherUnderground_d\<close> are the anonymous structs \<open>d\<close>
  of the two \<open>temperature\<close> methods. A variable declared by \<open>var d\<close> and the literal
  \<open>weatherData{}\<close> hold the zero value: every number \<open>0\<close>, every string empty.
\<close>

record Main_struct =
  Kelvin :: float64

record weatherData =
  Name :: string
  Main :: Main_struct

record openWeatherMap_d =
  Main :: Main_struct

record Observation_struct =
  Celcius :: float64

record weatherUnderground_d =
  Observation :: Observation_struct

definition zero_weatherData :: weatherData where
  "zero_weatherData = \<lparr>Name = [], Main = \<lparr>Kelvin = Fin 0\<rparr>\<rparr>"

definition zero_openWeatherMap_d :: openWeatherMap_d where
  "zero_openWeatherMap_d = \<lparr>Main = \<lparr>Kelvin = Fin 0\<rparr>\<rparr>"

definition zero_weatherUnderground_d :: weatherUnderground_d where
  "zero_weatherUnderground_d = \<lparr>Observation = \<lparr>Celcius = Fin 0\<rparr>\<rparr>"

text \<open>
  \<open>http.Get\<close> gives the transport error or the response (its body, of type \<open>'b\<close>);
  \<open>Decode\<close> takes the body and the struct and gives the decoder's error and the
  struct as it leaves it.
\<close>

type_synonym 'b http_Get = "string \<Rightarrow> error + 'b"

type_synonym ('b, 'd) json_Decode = "'b \<Rightarrow> 'd \<Rightarrow> error option \<times> 'd"

definition openWeatherMap_url :: "string \<Rightarrow> string" where
  "openWeatherMap_url city = ''http://api.openweathermap.org/data/2.5/weather?q='' @ city"

definition openWeatherMap_temperature ::
  "'b http_Get \<Rightarrow> ('b, openWeatherMap_d) json_Decode \<Rightarrow> string
     \<Rightarrow> (float64 \<times> error option) \<times> string list" where
  "openWeatherMap_temperature Get Decode city =
     (case Get (openWeatherMap_url city) of
        Inl err \<Rightarrow> ((Fin 0, Some err), [openWeatherMap_url city])
      | Inr body \<Rightarrow>
          (case Decode body zero_openWeatherMap_d of
             (Some err, d) \<Rightarrow> ((Fin 0, Some err), [openWeatherMap_url city])
           | (None, d) \<Rightarrow>
               ((Kelvin (openWeatherMap_d.Main d), None), [openWeatherMap_url city])))"

definition weatherUnderground_url :: "string \<Rightarrow> string \<Rightarrow> string" where
  "weatherUnderground_url wuKey city =
     ''http://api.wunderground.com/api/'' @ wuKey @ ''/conditions/q/'' @ city @ ''.json''"

definition weatherUnderground_temperature ::
  "string \<Rightarrow> 'b http_Get \<Rightarrow> ('b, weatherUnderground_d) json_Decode \<Rightarrow> string
     \<Rightarrow> (float64 \<times> error option) \<times> string list" where
  "weatherUnderground_temperature wuKey Get Decode city =
     (if wuKey = []
      then ((Fin 0, Some (Error ''Weather Underground API key must be set'')), [])
      else
        (case Get (weatherUnderground_url wuKey city) of
           Inl err \<Rightarrow> ((Fin 0, Some err), [weatherUnderground_url wuKey city])
         | Inr body \<Rightarrow>
             (case Decode body zero_weatherUnderground_d of
                (Some err, d) \<Rightarrow> ((Fin 0, Some err), [weatherUnderground_url wuKey city])
              | (None, d) \<Rightarrow>
                  ((fadd (Celcius (Observation d)) (Fin 273.15), None),
                   [weatherUnderground_url wuKey city]))))"

text \<open>
  \<open>getAPIKeys\<close> stores in \<open>wuKey\<close> whatever \<open>ioutil.ReadFile\<close> returned as data,
  whether or not it also returned an error.
\<close>

definition getAPIKeys :: "(string \<Rightarrow> string \<times> error option) \<Rightarrow> string" where
  "getAPIKeys ReadFile = (case ReadFile ''weatherunderground.key'' of (key, err) \<Rightarrow> key)"

text \<open>
  The provider list that \<open>main\<close> stores in \<open>mw\<close>:
  \<open>multiWeatherProvider{openWeatherMap{}, weatherUnderground{}}\<close>.
\<close>

definition mw ::
  "string \<Rightarrow> 'b http_Get \<Rightarrow> ('b, openWeatherMap_d) json_Decode
     \<Rightarrow> ('b, weatherUnderground_d) json_Decode \<Rightarrow> multiWeatherProvider" where
  "mw wuKey Get Decode_owm Decode_wu =
     [\<lambda>city. fst (openWeatherMap_temperature Get Decode_owm city),
      \<lambda>city. fst (weatherUnderground_temperature wuKey Get Decode_wu city)]"

subsection \<open>The aggregator: \<open>multiWeatherProvider.temperature\<close>\<close>

text \<open>
  Each goroutine calls its provider and sends the result on exactly one of the two
  buffered channels: the error on \<open>errs\<close> when it is not nil, the temperature on
  \<open>temps\<close> otherwise.
\<close>

datatype msg = OnTemps float64 | OnErrs error

definition goroutine :: "weatherProvider \<Rightarrow> string \<Rightarrow> msg" where
  "goroutine p city =
     (case p city of
        (k, Some err) \<Rightarrow> OnErrs err
      | (k, None) \<Rightarrow> OnTemps k)"

text \<open>The Fahrenheit value \<open>f := (temp * 1.8) - 459.67\<close> of the loop body.\<close>

definition fahrenheit :: "float64 \<Rightarrow> float64" where
  "fahrenheit temp = fsub (fmul temp (Fin 1.8)) (Fin 459.67)"

text \<open>
  The collection loop \<open>for i := 0; i < len(w); i++ { select { ... } }\<close>. Its first
  argument is the number of iterations still to run, \<open>len(w) - i\<close>; its second the
  messages in the order in which the \<open>select\<close> receives them; its third, \<open>s\<close>, is
  the variable \<open>sum\<close>.
  The result is \<open>None\<close> when the \<open>select\<close> waits for a message that never comes,
  \<open>Some (Inl err)\<close> when the loop is left by \<open>return 0, err\<close>, and
  \<open>Some (Inr s)\<close> when it runs to its end.
\<close>

fun collect :: "nat \<Rightarrow> msg list \<Rightarrow> float64 \<Rightarrow> (error + float64) option" where
  "collect 0 ms s = Some (Inr s)"
| "collect (Suc n) [] s = None"
| "collect (Suc n) (OnTemps temp # ms) s =
     collect n ms (fadd s (fahrenheit temp))"
| "collect (Suc n) (OnErrs err # ms) s = Some (Inl err)"

text \<open>
  The scheduler is the argument \<open>order\<close>: the indices of the providers in the order in
  which the \<open>select\<close> receives their messages. When every goroutine finishes it is a
  permutation of \<open>[0..<len(w)]\<close>; a provider that never returns does not occur in it.
  An index that names no provider has no goroutine and sends nothing.
\<close>

definition multiWeatherProvider_temperature ::
  "multiWeatherProvider \<Rightarrow> nat list \<Rightarrow> string \<Rightarrow> (float64 \<times> error option) option" where
  "multiWeatherProvider_temperature w order city =
     (case collect (length w)
             (map (\<lambda>i. goroutine (w ! i) city) (filter (\<lambda>i. i < length w) order))
             (Fin 0) of
        None \<Rightarrow> None
      | Some (Inl err) \<Rightarrow> Some (Fin 0, Some err)
      | Some (Inr s) \<Rightarrow> Some (fdiv s (Fin (real (length w))), None))"

subsection \<open>The HTTP handlers\<close>

text \<open>
  \<open>strings.SplitN(s, sep, n)\<close> for a separator of one character and \<open>n \<ge> 0\<close>: at
  most \<open>n\<close> pieces, the last one the unsplit remainder.
\<close>

fun SplitN :: "string \<Rightarrow> char \<Rightarrow> nat \<Rightarrow> string list" where
  "SplitN s sep 0 = []"
| "SplitN s sep (Suc 0) = [s]"
| "SplitN s sep (Suc (Suc n)) =
     (if sep \<in> set s
      then takeWhile (\<lambda>c. c \<noteq> sep) s # SplitN (tl (dropWhile (\<lambda>c. c \<noteq> sep) s)) sep (Suc n)
      else [s])"

text \<open>
  What a handler does to its \<open>http.ResponseWriter\<close>, as the list of the calls it
  makes: \<open>http.Error(writer, text, code)\<close>, \<open>writer.Header().Set(key, value)\<close>,
  \<open>json.NewEncoder(writer).Encode(v)\<close> and \<open>writer.Write(bytes)\<close>. The value encoded
  is the map with the keys \<open>city\<close>, \<open>temp\<close> and \<open>took\<close>, or a \<open>weatherData\<close>.
\<close>

datatype json_value = String string | Float float64

datatype payload = Map "(string \<times> json_value) list" | Data weatherData

datatype writer_call =
  Http_Error string nat
| Header_Set string string
| Encode payload
| Write string

text \<open>
  A handler runs to its end, or panics (an index out of range), or never returns
  because the aggregator waits for a provider that never answers.
\<close>

datatype handled = Responded "writer_call list" | Panicked | Waiting

definition StatusInternalServerError :: nat where
  "StatusInternalServerError = 500"

definition hello :: "writer_call list" where
  "hello = [Write ''Hello!'']"

text \<open>
  The handler \<open>weather\<close> of the multi-provider program. \<open>path\<close> is \<open>req.URL.Path\<close>,
  \<open>took\<close> is the text \<open>time.Since(begin).String()\<close> that the clock gives, \<open>w\<close> is the
  package variable \<open>mw\<close> and \<open>order\<close> the scheduler of the aggregator.
\<close>

definition weather :: "multiWeatherProvider \<Rightarrow> nat list \<Rightarrow> string \<Rightarrow> string \<Rightarrow> handled" where
  "weather w order took path =
     (if length (SplitN path CHR ''/'' 3) \<le> 2 then Panicked
      else
        (let city = SplitN path CHR ''/'' 3 ! 2 in
         case multiWeatherProvider_temperature w order city of
           None \<Rightarrow> Waiting
         | Some (temp, Some err) \<Rightarrow>
             Responded [Http_Error (message err) StatusInternalServerError]
         | Some (temp, None) \<Rightarrow>
             Responded
               [Header_Set ''Content-Type'' ''application/json; charset=utf-8'',
                Encode (Map [(''city'', String city), (''temp'', Float temp),
                             (''took'', String took)])]))"

text \<open>
  The single-provider program of \<open>main.go\<close>: \<open>query\<close>, and its handler, also called
  \<open>weather\<close> there and \<open>weather_query\<close> here.
\<close>

definition query ::
  "'b http_Get \<Rightarrow> ('b, weatherData) json_Decode \<Rightarrow> string
     \<Rightarrow> (weatherData \<times> error option) \<times> string list" where
  "query Get Decode city =
     (case Get (''http://api.openweathermap.org/data/2.5/weather?q='' @ city) of
        Inl err \<Rightarrow>
          ((zero_weatherData, Some err),
           [''http://api.openweathermap.org/data/2.5/weather?q='' @ city])
      | Inr body \<Rightarrow>
          (case Decode body zero_weatherData of
             (Some err, d) \<Rightarrow>
               ((zero_weatherData, Some err),
                [''http://api.openweathermap.org/data/2.5/weather?q='' @ city])
           | (None, d) \<Rightarrow>
               ((d, None), [''http://api.openweathermap.org/data/2.5/weather?q='' @ city])))"

definition weather_query ::
  "'b http_Get \<Rightarrow> ('b, weatherData) json_Decode \<Rightarrow> string \<Rightarrow> handled" where
  "weather_query Get Decode path =
     (if length (SplitN path CHR ''/'' 3) \<le> 2 then Panicked
      else
        (let city = SplitN path CHR ''/'' 3 ! 2 in
         case fst (query Get Decode city) of
           (data, Some err) \<Rightarrow>
             Responded [Http_Error (message err) StatusInternalServerError]
         | (data, None) \<Rightarrow>
             Responded
               [Header_Set ''Content-Type'' ''application/json; charset=utf-8'',
                Encode (Data data)]))"

subsection \<open>Mock providers and transports\<close>

text \<open>
  The providers, transports and decoders at which the theorems below are instantiated:
  a provider with a fixed answer, a transport that answers every request with the URL
  as body or refuses every request, decoders that store a fixed reading, store
  nothing, or reject the body, and a file system without the key file.
\<close>

definition succeeding :: "float64 \<Rightarrow> weatherProvider" where
  "succeeding k city = (k, None)"

definition failing :: "error \<Rightarrow> weatherProvider" where
  "failing err city = (Fin 0, Some err)"

definition Get_ok :: "string http_Get" where
  "Get_ok url = Inr url"

definition Get_refused :: "string http_Get" where
  "Get_refused url = Inl (Error ''connection refused'')"

definition Decode_Kelvin :: "float64 \<Rightarrow> (string, openWeatherMap_d) json_Decode" where
  "Decode_Kelvin k body d = (None, d\<lparr>openWeatherMap_d.Main := \<lparr>Kelvin = k\<rparr>\<rparr>)"

definition Decode_Celcius :: "float64 \<Rightarrow> (string, weatherUnderground_d) json_Decode" where
  "Decode_Celcius c body d = (None, d\<lparr>Observation := \<lparr>Celcius = c\<rparr>\<rparr>)"


definition Decode_rejects :: "(string, 'd) json_Decode" where
  "Decode_rejects body d = (Some (Error ''unexpected end of JSON input''), d)"

definition ReadFile_missing :: "string \<Rightarrow> string \<times> error option" where
  "ReadFile_missing name = ([], Some (Error (''open '' @ name @ '': no such file or directory'')))"

section \<open>Properties\<close>

subsection \<open>The aggregator under a scheduler that delivers every message\<close>


lemma fahrenheit_Fin: "fahrenheit (Fin k) = Fin (k * 1.8 - 459.67)"
  by (simp add: fahrenheit_def fsub_def)

lemma goroutine_cases:
  "goroutine p city =
     (case snd (p city) of None \<Rightarrow> OnTemps (fst (p city)) | Some err \<Rightarrow> OnErrs err)"
  by (cases "p city") (simp add: goroutine_def split: option.splits)

lemma perm_set:
  assumes "mset order = mset [0..<n]"
  shows "set order = {0..<n}"
  using assms by (metis mset_eq_setD set_upt)

lemma perm_filter_lt:
  assumes "mset order = mset [0..<n]"
  shows "filter (\<lambda>i. i < n) order = order"
  using perm_set [OF assms] by (simp add: filter_id_conv)

lemma perm_length:
  assumes "mset order = mset [0..<n]"
  shows "length order = n"
  using assms by (metis mset_eq_length length_upt diff_zero)

text \<open>
  The loop over the messages of the providers \<open>js\<close>: it returns the error of the first
  failing one, and with none failing it adds up the Fahrenheit values in that order.
\<close>

lemma collect_goroutines:
  "length js = n \<Longrightarrow>
   collect n (map (\<lambda>i. goroutine (w ! i) city) js) s =
     (case find (\<lambda>i. snd ((w ! i) city) \<noteq> None) js of
        Some i \<Rightarrow> Some (Inl (the (snd ((w ! i) city))))
      | None \<Rightarrow>
          Some (Inr (fold (\<lambda>i a. fadd a (fahrenheit (fst ((w ! i) city)))) js s)))"
proof (induction js arbitrary: n s)
  case Nil
  then show ?case by simp
next
  case (Cons j js)
  then obtain m where n: "n = Suc m" and m: "length js = m" by (cases n) auto
  show ?case
  proof (cases "snd ((w ! j) city)")
    case None
    then have "goroutine (w ! j) city = OnTemps (fst ((w ! j) city))"
      by (simp add: goroutine_cases)
    then show ?thesis using Cons.IH [OF m] None n by (simp split: option.splits)
  next
    case (Some e)
    then have "goroutine (w ! j) city = OnErrs e"
      by (simp add: goroutine_cases)
    then show ?thesis using Some n by simp
  qed
qed

lemma temperature_perm:
  assumes "mset order = mset [0..<length w]"
  shows "multiWeatherProvider_temperature w order city =
     (case find (\<lambda>i. snd ((w ! i) city) \<noteq> None) order of
        Some i \<Rightarrow> Some (Fin 0, snd ((w ! i) city))
      | None \<Rightarrow>
          Some (fdiv (fold (\<lambda>i a. fadd a (fahrenheit (fst ((w ! i) city)))) order (Fin 0))
                  (Fin (real (length w))), None))"
proof -
  have len: "length order = length w" using assms by (rule perm_length)
  show ?thesis
    unfolding multiWeatherProvider_temperature_def perm_filter_lt [OF assms]
      collect_goroutines [OF len]
    by (auto split: option.splits dest: find_Some_iff [THEN iffD1])
qed


lemma fold_fadd_Fin:
  "fold (\<lambda>i a. fadd a (Fin (g i))) js (Fin s) = Fin (s + (\<Sum>i\<leftarrow>js. g i))"
  by (induction js arbitrary: s) (simp_all add: add.assoc)

lemma sum_list_perm:
  fixes g :: "nat \<Rightarrow> real"
  assumes "mset js = mset ks"
  shows "(\<Sum>i\<leftarrow>js. g i) = (\<Sum>i\<leftarrow>ks. g i)"
proof -
  have "mset (map g js) = mset (map g ks)" using assms by simp
  then show ?thesis by (metis sum_mset_sum_list)
qed

lemma temperature_all_succeed:
  assumes order: "mset order = mset [0..<length w]"
    and ks: "map (\<lambda>p. p city) w = map (\<lambda>k. (Fin k, None)) ks"
  shows "multiWeatherProvider_temperature w order city =
           Some (fdiv (Fin (\<Sum>k\<leftarrow>ks. k * 1.8 - 459.67)) (Fin (real (length ks))), None)"
proof -
  have len: "length w = length ks"
    using ks by (metis length_map)
  have nth: "(w ! i) city = (Fin (ks ! i), None)" if "i < length w" for i
  proof -
    have "map (\<lambda>p. p city) w ! i = map (\<lambda>k. (Fin k, None)) ks ! i"
      by (simp only: ks)
    then show ?thesis using that len by simp
  qed
  note set = perm_set [OF order]
  have none: "find (\<lambda>i. snd ((w ! i) city) \<noteq> None) order = None"
    using set nth by (auto simp: find_None_iff)
  have "fold (\<lambda>i a. fadd a (fahrenheit (fst ((w ! i) city)))) order (Fin 0)
      = fold (\<lambda>i a. fadd a (Fin (ks ! i * 1.8 - 459.67))) order (Fin 0)"
    by (rule fold_cong) (use set nth in \<open>auto simp: fahrenheit_Fin\<close>)
  also have "\<dots> = Fin (\<Sum>i\<leftarrow>order. ks ! i * 1.8 - 459.67)"
    by (simp add: fold_fadd_Fin)
  also have "(\<Sum>i\<leftarrow>order. ks ! i * 1.8 - 459.67)
      = (\<Sum>i\<leftarrow>[0..<length ks]. ks ! i * 1.8 - 459.67)"
    using order len by (intro sum_list_perm) simp
  also have "\<dots> = (\<Sum>k\<leftarrow>ks. k * 1.8 - 459.67)"
  proof -
    have "map (\<lambda>i. ks ! i * 1.8 - 459.67) [0..<length ks]
        = map (\<lambda>k. k * 1.8 - 459.67) (map (\<lambda>i. ks ! i) [0..<length ks])"
      by (simp only: map_map comp_def)
    then show ?thesis by (simp only: map_nth)
  qed
  finally have fold: "fold (\<lambda>i a. fadd a (fahrenheit (fst ((w ! i) city)))) order (Fin 0)
      = Fin (\<Sum>k\<leftarrow>ks. k * 1.8 - 459.67)" .
  show ?thesis
    by (simp only: temperature_perm [OF order] none fold len option.case)
qed

lemma find_failing:
  assumes order: "mset order = mset [0..<length w]"
    and p: "p \<in> set w" and err: "snd (p city) = Some err"
  shows "\<exists>i e. find (\<lambda>i. snd ((w ! i) city) \<noteq> None) order = Some i \<and> i < length w
           \<and> snd ((w ! i) city) = Some e"
proof -
  note set = perm_set [OF order]
  obtain j where j: "j < length w" "w ! j = p"
    using p by (auto simp: in_set_conv_nth)
  then have "j \<in> set order" "snd ((w ! j) city) \<noteq> None"
    using set err by auto
  then have "find (\<lambda>i. snd ((w ! i) city) \<noteq> None) order \<noteq> None"
    by (auto simp: find_None_iff)
  then obtain i where i: "find (\<lambda>i. snd ((w ! i) city) \<noteq> None) order = Some i"
    by auto
  then have "i \<in> set order" "snd ((w ! i) city) \<noteq> None"
    by (auto simp: find_Some_iff)
  then show ?thesis using i set by auto
qed

subsection \<open>All providers succeed\<close>

text \<open>
  C1. When every provider of a list of length N succeeds, with Kelvin values
  \<open>k1..kN\<close>, the aggregator returns a nil error and the value
  \<open>(sum of (ki * 1.8 - 459.67)) / N\<close>, whatever the order in which the results are
  collected. (For \<open>N = 0\<close> the quotient is the division \<open>0.0 / 0\<close> of the code.)
\<close>

theorem all_succeed_average:
  assumes "mset order = mset [0..<length w]"
    and "map (\<lambda>p. p city) w = map (\<lambda>k. (Fin k, None)) ks"
  shows "multiWeatherProvider_temperature w order city =
           Some (fdiv (Fin (\<Sum>k\<leftarrow>ks. k * 1.8 - 459.67)) (Fin (real (length ks))), None)
       \<and> (ks \<noteq> [] \<longrightarrow>
            multiWeatherProvider_temperature w order city =
              Some (Fin ((\<Sum>k\<leftarrow>ks. k * 1.8 - 459.67) / real (length ks)), None))"
  using temperature_all_succeed [OF assms] by simp

theorem all_succeed_average_witness:
  "mset [1, 0] = mset [0..<length [succeeding (Fin 300), succeeding (Fin 290)]]
   \<and> map (\<lambda>p. p ''London'') [succeeding (Fin 300), succeeding (Fin 290)]
       = map (\<lambda>k. (Fin k, None)) [300, 290]
   \<and> [300, 290 :: real] \<noteq> []
   \<and> multiWeatherProvider_temperature [succeeding (Fin 300), succeeding (Fin 290)] [1, 0] ''London''
       = Some (Fin 71.33, None)"
  using all_succeed_average [of "[1, 0]" "[succeeding (Fin 300), succeeding (Fin 290)]"
      "''London''" "[300, 290]"]
  by (simp add: succeeding_def upt_rec)

subsection \<open>One failure fails the request\<close>

text \<open>
  C2. When at least one provider returns an error, the aggregator returns an error and
  the value 0, never an average over the providers that succeeded: the error is that of
  the failing provider whose message is collected first, and so it is that provider's
  error when every other provider succeeds. This holds for every list length.
\<close>

theorem any_failure_fails_aggregate:
  assumes order: "mset order = mset [0..<length w]"
    and p: "p \<in> set w" and err: "snd (p city) = Some err"
  shows "(\<exists>i e. find (\<lambda>i. snd ((w ! i) city) \<noteq> None) order = Some i \<and> i < length w
            \<and> snd ((w ! i) city) = Some e
            \<and> multiWeatherProvider_temperature w order city = Some (Fin 0, Some e))
       \<and> ((\<forall>q\<in>set w. snd (q city) = None \<or> snd (q city) = Some err) \<longrightarrow>
            multiWeatherProvider_temperature w order city = Some (Fin 0, Some err))"
proof -
  obtain i e where i: "find (\<lambda>i. snd ((w ! i) city) \<noteq> None) order = Some i"
      "i < length w" "snd ((w ! i) city) = Some e"
    using find_failing [OF assms] by blast
  have res: "multiWeatherProvider_temperature w order city = Some (Fin 0, Some e)"
    by (simp only: temperature_perm [OF order] i option.case)
  have "e = err" if "\<forall>q\<in>set w. snd (q city) = None \<or> snd (q city) = Some err"
    using that i(2,3) nth_mem [of i w] by fastforce
  then show ?thesis using i res by blast
qed

theorem any_failure_fails_aggregate_witness:
  "mset [1, 0] = mset [0..<length [succeeding (Fin 300), failing (Error ''no route to host'')]]
   \<and> failing (Error ''no route to host'')
       \<in> set [succeeding (Fin 300), failing (Error ''no route to host'')]
   \<and> snd (failing (Error ''no route to host'') ''London'') = Some (Error ''no route to host'')
   \<and> snd (succeeding (Fin 300) ''London'') = None
   \<and> multiWeatherProvider_temperature
         [succeeding (Fin 300), failing (Error ''no route to host'')] [1, 0] ''London''
       = Some (Fin 0, Some (Error ''no route to host''))"
  using any_failure_fails_aggregate [of "[1, 0]"
      "[succeeding (Fin 300), failing (Error ''no route to host'')]"
      "failing (Error ''no route to host'')" "''London''" "Error ''no route to host''"]
  by (simp add: succeeding_def failing_def upt_rec)

subsection \<open>Determinism\<close>




subsection \<open>Units\<close>

lemma openWeatherMap_decoded:
  assumes "Get (openWeatherMap_url city) = Inr body"
    and "Decode body zero_openWeatherMap_d = (None, d)"
  shows "openWeatherMap_temperature Get Decode city
           = ((Kelvin (openWeatherMap_d.Main d), None), [openWeatherMap_url city])"
  using assms by (simp add: openWeatherMap_temperature_def)

lemma weatherUnderground_decoded:
  assumes "wuKey \<noteq> []"
    and "Get (weatherUnderground_url wuKey city) = Inr body"
    and "Decode body zero_weatherUnderground_d = (None, d)"
  shows "weatherUnderground_temperature wuKey Get Decode city
           = ((fadd (Celcius (Observation d)) (Fin 273.15), None),
              [weatherUnderground_url wuKey city])"
  using assms by (simp add: weatherUnderground_temperature_def)

lemma temperature_single:
  assumes "p city = (Fin k, None)"
  shows "multiWeatherProvider_temperature [p] [0] city = Some (Fin (k * 1.8 - 459.67), None)"
  using assms
  by (simp add: multiWeatherProvider_temperature_def goroutine_def fahrenheit_Fin)

text \<open>
  C3. Each provider returns Kelvin. \<open>openWeatherMap\<close> returns the decoded field
  \<open>temp\<close> unchanged; \<open>weatherUnderground\<close> returns the decoded Celsius reading plus
  273.15, so 20.0 Celsius gives 293.15 Kelvin; and the aggregator turns 293.15 Kelvin
  into \<open>293.15 * 1.8 - 459.67 = 68.0\<close> Fahrenheit.
\<close>

theorem providers_normalize_to_Kelvin:
  "(Get (openWeatherMap_url city) = Inr body \<and> Decode_owm body zero_openWeatherMap_d = (None, d)
      \<longrightarrow> fst (openWeatherMap_temperature Get Decode_owm city)
            = (Kelvin (openWeatherMap_d.Main d), None))
   \<and> (wuKey \<noteq> [] \<and> Get (weatherUnderground_url wuKey city) = Inr body'
       \<and> Decode_wu body' zero_weatherUnderground_d = (None, d') \<and> Celcius (Observation d') = Fin c
      \<longrightarrow> fst (weatherUnderground_temperature wuKey Get Decode_wu city)
            = (Fin (c + 273.15), None))
   \<and> (wuKey \<noteq> [] \<and> Get (weatherUnderground_url wuKey city) = Inr body'
       \<and> Decode_wu body' zero_weatherUnderground_d = (None, d') \<and> Celcius (Observation d') = Fin 20
      \<longrightarrow> fst (weatherUnderground_temperature wuKey Get Decode_wu city) = (Fin 293.15, None)
          \<and> multiWeatherProvider_temperature
                [\<lambda>city. fst (weatherUnderground_temperature wuKey Get Decode_wu city)] [0] city
              = Some (Fin 68.0, None))
   \<and> fahrenheit (Fin 293.15) = Fin 68.0"
proof -
  have wu: "fst (weatherUnderground_temperature wuKey Get Decode_wu city) = (Fin (x + 273.15), None)"
    if "wuKey \<noteq> []" "Get (weatherUnderground_url wuKey city) = Inr body'"
      "Decode_wu body' zero_weatherUnderground_d = (None, d')" "Celcius (Observation d') = Fin x"
    for x
    using that by (simp add: weatherUnderground_decoded)
  have agg: "multiWeatherProvider_temperature
                [\<lambda>city. fst (weatherUnderground_temperature wuKey Get Decode_wu city)] [0] city
              = Some (Fin 68.0, None)"
    if "fst (weatherUnderground_temperature wuKey Get Decode_wu city) = (Fin 293.15, None)"
    using temperature_single [of "\<lambda>city. fst (weatherUnderground_temperature wuKey Get Decode_wu city)"
        city "293.15"] that by simp
  have twenty: "fst (weatherUnderground_temperature wuKey Get Decode_wu city) = (Fin 293.15, None)"
    if "wuKey \<noteq> []" "Get (weatherUnderground_url wuKey city) = Inr body'"
      "Decode_wu body' zero_weatherUnderground_d = (None, d')" "Celcius (Observation d') = Fin 20"
    using wu [OF that] by simp
  show ?thesis
    using wu twenty agg by (simp add: openWeatherMap_decoded fahrenheit_Fin)
qed

theorem providers_normalize_to_Kelvin_witness:
  "Get_ok (openWeatherMap_url ''London'') = Inr (openWeatherMap_url ''London'')
   \<and> Decode_Kelvin (Fin 293.15) (openWeatherMap_url ''London'') zero_openWeatherMap_d
       = (None, \<lparr>openWeatherMap_d.Main = \<lparr>Kelvin = Fin 293.15\<rparr>\<rparr>)
   \<and> ''key'' \<noteq> []
   \<and> Get_ok (weatherUnderground_url ''key'' ''London'') = Inr (weatherUnderground_url ''key'' ''London'')
   \<and> Decode_Celcius (Fin 20) (weatherUnderground_url ''key'' ''London'') zero_weatherUnderground_d
       = (None, \<lparr>Observation = \<lparr>Celcius = Fin 20\<rparr>\<rparr>)
   \<and> Celcius (Observation \<lparr>Observation = \<lparr>Celcius = Fin 20\<rparr>\<rparr>) = Fin 20
   \<and> fst (openWeatherMap_temperature Get_ok (Decode_Kelvin (Fin 293.15)) ''London'')
       = (Fin 293.15, None)
   \<and> fst (weatherUnderground_temperature ''key'' Get_ok (Decode_Celcius (Fin 20)) ''London'')
       = (Fin 293.15, None)
   \<and> multiWeatherProvider_temperature
        [\<lambda>city. fst (weatherUnderground_temperature ''key'' Get_ok (Decode_Celcius (Fin 20)) city)]
        [0] ''London''
       = Some (Fin 68.0, None)"
  using providers_normalize_to_Kelvin [of Get_ok "''London''" "openWeatherMap_url ''London''"
      "Decode_Kelvin (Fin 293.15)" "\<lparr>openWeatherMap_d.Main = \<lparr>Kelvin = Fin 293.15\<rparr>\<rparr>"
      "''key''" "weatherUnderground_url ''key'' ''London''" "Decode_Celcius (Fin 20)"
      "\<lparr>Observation = \<lparr>Celcius = Fin 20\<rparr>\<rparr>" 20]
  by (simp add: Get_ok_def Decode_Kelvin_def Decode_Celcius_def zero_openWeatherMap_d_def
      zero_weatherUnderground_d_def)

subsection \<open>Provider failures and requests\<close>

lemma openWeatherMap_error_iff:
  "snd (fst (openWeatherMap_temperature Get Decode city)) \<noteq> None
     \<longleftrightarrow> (\<exists>err. Get (openWeatherMap_url city) = Inl err)
       \<or> (\<exists>body err. Get (openWeatherMap_url city) = Inr body
             \<and> fst (Decode body zero_openWeatherMap_d) = Some err)"
  by (auto simp: openWeatherMap_temperature_def split: sum.splits prod.splits option.splits)

lemma weatherUnderground_error_iff:
  "snd (fst (weatherUnderground_temperature wuKey Get Decode city)) \<noteq> None
     \<longleftrightarrow> wuKey = []
       \<or> (\<exists>err. Get (weatherUnderground_url wuKey city) = Inl err)
       \<or> (\<exists>body err. Get (weatherUnderground_url wuKey city) = Inr body
             \<and> fst (Decode body zero_weatherUnderground_d) = Some err)"
  by (auto simp: weatherUnderground_temperature_def split: sum.splits prod.splits option.splits)

text \<open>
  C4. A provider's call returns an error exactly when the network call fails or the
  decoder rejects the body, or, for \<open>weatherUnderground\<close>, when the key is empty. With
  an empty key (also the key that \<open>getAPIKeys\<close> stores when the key file gave no
  data) \<open>weatherUnderground\<close> returns its error at once and issues no request.
\<close>

theorem provider_fails_exactly_when:
  "(snd (fst (openWeatherMap_temperature Get Decode_owm city)) \<noteq> None
      \<longleftrightarrow> (\<exists>err. Get (openWeatherMap_url city) = Inl err)
        \<or> (\<exists>body err. Get (openWeatherMap_url city) = Inr body
              \<and> fst (Decode_owm body zero_openWeatherMap_d) = Some err))
   \<and> (snd (fst (weatherUnderground_temperature wuKey Get Decode_wu city)) \<noteq> None
      \<longleftrightarrow> wuKey = []
        \<or> (\<exists>err. Get (weatherUnderground_url wuKey city) = Inl err)
        \<or> (\<exists>body err. Get (weatherUnderground_url wuKey city) = Inr body
              \<and> fst (Decode_wu body zero_weatherUnderground_d) = Some err))
   \<and> weatherUnderground_temperature [] Get Decode_wu city
       = ((Fin 0, Some (Error ''Weather Underground API key must be set'')), [])
   \<and> (fst (ReadFile ''weatherunderground.key'') = [] \<longrightarrow>
        weatherUnderground_temperature (getAPIKeys ReadFile) Get Decode_wu city
          = ((Fin 0, Some (Error ''Weather Underground API key must be set'')), []))"
proof -
  have "getAPIKeys ReadFile = []" if "fst (ReadFile ''weatherunderground.key'') = []"
    using that by (cases "ReadFile ''weatherunderground.key''") (simp add: getAPIKeys_def)
  then show ?thesis
    using openWeatherMap_error_iff [of Get Decode_owm city]
      weatherUnderground_error_iff [of wuKey Get Decode_wu city]
    by (simp add: weatherUnderground_temperature_def)
qed

theorem provider_fails_exactly_when_witness:
  "fst (ReadFile_missing ''weatherunderground.key'') = []
   \<and> weatherUnderground_temperature (getAPIKeys ReadFile_missing) Get_ok (Decode_Celcius (Fin 20))
        ''London''
       = ((Fin 0, Some (Error ''Weather Underground API key must be set'')), [])
   \<and> Get_refused (openWeatherMap_url ''London'') = Inl (Error ''connection refused'')
   \<and> snd (fst (openWeatherMap_temperature Get_refused (Decode_Kelvin (Fin 300)) ''London'')) \<noteq> None
   \<and> Get_refused (weatherUnderground_url ''key'' ''London'') = Inl (Error ''connection refused'')
   \<and> snd (fst (weatherUnderground_temperature ''key'' Get_refused (Decode_Celcius (Fin 20))
        ''London'')) \<noteq> None"
  using provider_fails_exactly_when [of Get_refused "Decode_Kelvin (Fin 300)" "''London''"
      "''key''" "Decode_Celcius (Fin 20)" ReadFile_missing]
    provider_fails_exactly_when [of Get_ok "Decode_Kelvin (Fin 300)" "''London''"
      "''key''" "Decode_Celcius (Fin 20)" ReadFile_missing]
  by (simp add: Get_refused_def ReadFile_missing_def)





subsection \<open>The two-provider scenario\<close>

text \<open>
  C5, as amended. With the two providers of the program, \<open>openWeatherMap\<close> answering
  300.0 Kelvin and \<open>weatherUnderground\<close> answering 25.0 Celsius (298.15 Kelvin), the
  Fahrenheit values are 80.33 and 77.00 and the aggregator returns their average
  78.665, in either order of collection.
\<close>

theorem two_provider_scenario:
  assumes "mset order = mset [0..<2]"
    and "wuKey \<noteq> []"
    and "Get (openWeatherMap_url city) = Inr body"
    and "Decode_owm body zero_openWeatherMap_d = (None, d)"
    and "Kelvin (openWeatherMap_d.Main d) = Fin 300"
    and "Get (weatherUnderground_url wuKey city) = Inr body'"
    and "Decode_wu body' zero_weatherUnderground_d = (None, d')"
    and "Celcius (Observation d') = Fin 25"
  shows "fst (openWeatherMap_temperature Get Decode_owm city) = (Fin 300, None)
       \<and> fst (weatherUnderground_temperature wuKey Get Decode_wu city) = (Fin 298.15, None)
       \<and> fahrenheit (Fin 300) = Fin 80.33
       \<and> fahrenheit (Fin 298.15) = Fin 77.0
       \<and> multiWeatherProvider_temperature (mw wuKey Get Decode_owm Decode_wu) order city
           = Some (Fin 78.665, None)"
proof -
  have owm: "fst (openWeatherMap_temperature Get Decode_owm city) = (Fin 300, None)"
    using assms by (simp add: openWeatherMap_decoded)
  have wu: "fst (weatherUnderground_temperature wuKey Get Decode_wu city) = (Fin 298.15, None)"
    using assms by (simp add: weatherUnderground_decoded)
  have order: "mset order = mset [0..<length (mw wuKey Get Decode_owm Decode_wu)]"
    using assms(1) by (simp add: mw_def numeral_2_eq_2)
  have ks: "map (\<lambda>p. p city) (mw wuKey Get Decode_owm Decode_wu)
          = map (\<lambda>k. (Fin k, None)) [300, 298.15]"
    by (simp add: mw_def owm wu)
  have "multiWeatherProvider_temperature (mw wuKey Get Decode_owm Decode_wu) order city
      = Some (Fin 78.665, None)"
    using temperature_all_succeed [OF order ks] by simp
  then show ?thesis using owm wu by (simp add: fahrenheit_Fin)
qed

theorem two_provider_scenario_witness:
  "mset [1, 0] = mset [0..<2]
   \<and> ''key'' \<noteq> []
   \<and> Get_ok (openWeatherMap_url ''London'') = Inr (openWeatherMap_url ''London'')
   \<and> Decode_Kelvin (Fin 300) (openWeatherMap_url ''London'') zero_openWeatherMap_d
       = (None, \<lparr>openWeatherMap_d.Main = \<lparr>Kelvin = Fin 300\<rparr>\<rparr>)
   \<and> Get_ok (weatherUnderground_url ''key'' ''London'')
       = Inr (weatherUnderground_url ''key'' ''London'')
   \<and> Decode_Celcius (Fin 25) (weatherUnderground_url ''key'' ''London'') zero_weatherUnderground_d
       = (None, \<lparr>Observation = \<lparr>Celcius = Fin 25\<rparr>\<rparr>)
   \<and> multiWeatherProvider_temperature
        (mw ''key'' Get_ok (Decode_Kelvin (Fin 300)) (Decode_Celcius (Fin 25))) [1, 0] ''London''
       = Some (Fin 78.665, None)"
  using two_provider_scenario [of "[1, 0]" "''key''" Get_ok "''London''"
      "openWeatherMap_url ''London''" "Decode_Kelvin (Fin 300)"
      "\<lparr>openWeatherMap_d.Main = \<lparr>Kelvin = Fin 300\<rparr>\<rparr>"
      "weatherUnderground_url ''key'' ''London''" "Decode_Celcius (Fin 25)"
      "\<lparr>Observation = \<lparr>Celcius = Fin 25\<rparr>\<rparr>"]
  by (simp add: Get_ok_def Decode_Kelvin_def Decode_Celcius_def zero_openWeatherMap_d_def
      zero_weatherUnderground_d_def upt_rec numeral_2_eq_2)

text \<open>
  The scenario as the specification states it fails: 298.15 Kelvin is 77.00 Fahrenheit,
  not 77.27, and the average 78.665 is farther than 0.01 from 78.80.
\<close>

theorem two_provider_scenario_counterexample:
  "multiWeatherProvider_temperature
      (mw ''key'' Get_ok (Decode_Kelvin (Fin 300)) (Decode_Celcius (Fin 25))) [0, 1] ''London''
     = Some (Fin 78.665, None)
   \<and> \<not> \<bar>78.665 - 78.80\<bar> \<le> (0.01 :: real)
   \<and> fst (weatherUnderground_temperature ''key'' Get_ok (Decode_Celcius (Fin 25)) ''London'')
       = (Fin 298.15, None)
   \<and> fahrenheit (Fin 298.15) = Fin 77.0
   \<and> Fin 77.0 \<noteq> Fin 77.27"
  by (simp add: multiWeatherProvider_temperature_def mw_def goroutine_def fahrenheit_Fin
      openWeatherMap_temperature_def weatherUnderground_temperature_def Get_ok_def
      Decode_Kelvin_def Decode_Celcius_def zero_openWeatherMap_d_def
      zero_weatherUnderground_d_def)

subsection \<open>The handlers\<close>

lemma SplitN_weather: "SplitN (''/weather/'' @ city) CHR ''/'' 3 = [[], ''weather'', city]"
  by (simp add: numeral_3_eq_3)

text \<open>
  C10. Whenever the temperature query returns an error, the handler answers with
  \<open>http.Error\<close>, status 500 and the text of the error, and writes nothing else; it
  sets the content type and encodes the JSON payload only when the error is nil. This
  holds for the handler of the multi-provider program and for the one of \<open>main.go\<close>.
\<close>

theorem handler_maps_error_to_500:
  "(2 < length (SplitN path CHR ''/'' 3)
      \<and> multiWeatherProvider_temperature w order (SplitN path CHR ''/'' 3 ! 2) = Some (temp, Some err)
     \<longrightarrow> weather w order took path = Responded [Http_Error (message err) 500])
   \<and> (2 < length (SplitN path CHR ''/'' 3)
      \<and> multiWeatherProvider_temperature w order (SplitN path CHR ''/'' 3 ! 2) = Some (temp, None)
     \<longrightarrow> weather w order took path
          = Responded
              [Header_Set ''Content-Type'' ''application/json; charset=utf-8'',
               Encode (Map [(''city'', String (SplitN path CHR ''/'' 3 ! 2)),
                            (''temp'', Float temp), (''took'', String took)])])
   \<and> (weather w order took path = Responded calls \<and> Encode v \<in> set calls
     \<longrightarrow> (\<exists>temp. multiWeatherProvider_temperature w order (SplitN path CHR ''/'' 3 ! 2)
                   = Some (temp, None)))
   \<and> (2 < length (SplitN path CHR ''/'' 3)
      \<and> fst (query Get Decode (SplitN path CHR ''/'' 3 ! 2)) = (data, Some err)
     \<longrightarrow> weather_query Get Decode path = Responded [Http_Error (message err) 500])
   \<and> (2 < length (SplitN path CHR ''/'' 3)
      \<and> fst (query Get Decode (SplitN path CHR ''/'' 3 ! 2)) = (data, None)
     \<longrightarrow> weather_query Get Decode path
          = Responded
              [Header_Set ''Content-Type'' ''application/json; charset=utf-8'',
               Encode (Data data)])
   \<and> (weather_query Get Decode path = Responded calls \<and> Encode v \<in> set calls
     \<longrightarrow> (\<exists>data. fst (query Get Decode (SplitN path CHR ''/'' 3 ! 2)) = (data, None)))"
  by (auto simp: weather_def weather_query_def StatusInternalServerError_def Let_def
      split: if_splits option.splits prod.splits)

theorem handler_maps_error_to_500_witness:
  "2 < length (SplitN ''/weather/London'' CHR ''/'' 3)
   \<and> multiWeatherProvider_temperature
        (mw [] Get_refused Decode_rejects Decode_rejects) [1, 0]
        (SplitN ''/weather/London'' CHR ''/'' 3 ! 2)
       = Some (Fin 0, Some (Error ''Weather Underground API key must be set''))
   \<and> weather (mw [] Get_refused Decode_rejects Decode_rejects) [1, 0] ''1ms'' ''/weather/London''
       = Responded [Http_Error ''Weather Underground API key must be set'' 500]
   \<and> fst (query Get_refused Decode_rejects (SplitN ''/weather/London'' CHR ''/'' 3 ! 2))
       = (zero_weatherData, Some (Error ''connection refused''))
   \<and> weather_query Get_refused Decode_rejects ''/weather/London''
       = Responded [Http_Error ''connection refused'' 500]"
  using handler_maps_error_to_500 [of "''/weather/London''"
      "mw [] Get_refused Decode_rejects Decode_rejects" "[1, 0]" "Fin 0"
      "Error ''Weather Underground API key must be set''" "''1ms''" _ _
      Get_refused Decode_rejects zero_weatherData]
    handler_maps_error_to_500 [of "''/weather/London''"
      "mw [] Get_refused Decode_rejects Decode_rejects" "[1, 0]" "Fin 0"
      "Error ''connection refused''" "''1ms''" _ _
      Get_refused Decode_rejects zero_weatherData]
    SplitN_weather [of "''London''"]
  by (simp add: multiWeatherProvider_temperature_def mw_def goroutine_def
      openWeatherMap_temperature_def weatherUnderground_temperature_def Get_refused_def
      query_def)

subsection \<open>The empty provider list\<close>

text \<open>
  C7. For the empty provider list the loop runs zero times, no error branch is taken,
  and the unguarded division \<open>sum / float64(len(w))\<close> is \<open>0.0 / 0\<close>: the call returns
  NaN with a nil error, for every city and whatever the scheduler does.
\<close>

theorem empty_provider_list_returns_NaN:
  "multiWeatherProvider_temperature [] order city = Some (NaN, None)"
  by (simp add: multiWeatherProvider_temperature_def)

end
